theory Spec2Isabelle
  imports Main "HOL-Library.AList"
begin

section \<open>Data model of the signaling hub (src/sockets/index.ts)\<close>

text \<open>
  The hub keeps six process-wide registries, all JavaScript \<open>Map\<close>s, and talks to the
  clients through the Socket.IO server \<open>io\<close>. A \<open>Map\<close> iterates in insertion order,
  \<open>set\<close> on a present key keeps its position and on a new key appends, so a \<open>Map\<close> is
  an association list with \<open>AList.update\<close> for \<open>set\<close>, \<open>AList.delete\<close> for \<open>delete\<close>
  and \<open>map_of\<close> for \<open>get\<close>. A \<open>Set\<close> is a list without repetition, in insertion order.
  Times (\<open>Date.now()\<close>, and the ISO strings made from it) are integers of milliseconds.
\<close>

definition set_add :: "'a \<Rightarrow> 'a list \<Rightarrow> 'a list" where
  "set_add x xs = (if x \<in> set xs then xs else xs @ [x])"

definition set_delete :: "'a \<Rightarrow> 'a list \<Rightarrow> 'a list" where
  "set_delete x xs = removeAll x xs"

datatype presence = Online | Offline

record user =
  id_user :: string
  name :: string
  roomId :: string
  joinedAt :: int
  lastSeen :: int
  status :: presence
  isMuted :: bool
  isVideoOff :: bool
  isHost :: bool
  isRaiseHand :: bool

record connection_health =
  connectedAt :: int
  lastPing :: int
  pingCount :: nat
  reconnectCount :: nat
  isHealthy :: bool
  latency :: "int option"

text \<open>
  The transport, as far as the handlers use it: \<open>io.sockets.sockets\<close> maps a connection id
  to its socket; a socket has the flag \<open>connected\<close> and the rooms it entered with
  \<open>socket.join\<close>. Every socket is besides a member of the room named by its own id.
\<close>

record sock =
  connected :: bool
  joined :: "string list"

record state =
  connectedUsers :: "(string \<times> user) list"
  userSessions :: "(string \<times> string list) list"
  rooms :: "(string \<times> string list) list"
  roomHosts :: "(string \<times> string) list"
  roomCreators :: "(string \<times> string) list"
  connectionHealth :: "(string \<times> connection_health) list"
  sockets :: "(string \<times> sock) list"

definition MAX_ROOM_SIZE :: nat where
  "MAX_ROOM_SIZE = 50"

definition MAX_TOTAL_USERS :: nat where
  "MAX_TOTAL_USERS = 1000"

subsection \<open>Emissions\<close>

text \<open>
  \<open>socket.emit\<close> addresses the handler's own socket, \<open>io.to(r).emit\<close> the transport room
  \<open>r\<close>, and \<open>socket.to(r).emit\<close> the transport room \<open>r\<close> without the handler's socket.
  The handlers use \<open>socket.to\<close> both with a room id (\<open>socket.to(roomId)\<close>) and with a
  connection id (\<open>socket.to(targetId)\<close>): for the transport both are names of rooms.
\<close>

datatype target = ToSocket string | ToRoom string | ToRoomExcept string string

datatype participant_info = ParticipantInfo string string bool bool bool bool

datatype event =
    JoinError string
  | UserLeft string string int string
  | UserJoined participant_info
  | HostStatusUpdate string string
  | CurrentParticipants "participant_info list"
  | ParticipantCount nat
  | Offer string string
  | Answer string string
  | IceCandidate string string
  | UserMuted string bool
  | UserVideoToggled string bool
  | RaiseHandToggled string bool
  | ReactionReceived string string string string
  | ChatMessage string string string string
  | HostChanged string string string "(string \<times> bool) list"
  | ParticipantRenamed string string string
  | ConnectionConfirmed string int

type_synonym emission = "target \<times> event"

text \<open>
  Who receives an emission: the sockets of \<open>io.sockets.sockets\<close> that are in the addressed
  transport room, a socket being in the room of its own id and in every room it joined.
\<close>

definition in_room :: "string \<Rightarrow> string \<times> sock \<Rightarrow> bool" where
  "in_room r s = (fst s = r \<or> r \<in> set (joined (snd s)))"

definition room_members :: "state \<Rightarrow> string \<Rightarrow> string list" where
  "room_members st r = map fst (filter (in_room r) (sockets st))"

fun recipients :: "state \<Rightarrow> target \<Rightarrow> string list" where
  "recipients st (ToSocket s) = filter (\<lambda>c. c = s) (map fst (sockets st))"
| "recipients st (ToRoom r) = room_members st r"
| "recipients st (ToRoomExcept r s) = filter (\<lambda>c. c \<noteq> s) (room_members st r)"

definition deliveries :: "state \<Rightarrow> emission list \<Rightarrow> (string \<times> event) list" where
  "deliveries st out = concat (map (\<lambda>(t, e). map (\<lambda>c. (c, e)) (recipients st t)) out)"

section \<open>Peer signaling: offer, answer, ice-candidate\<close>

text \<open>
  The handlers read \<open>targetId\<close> and the blob from the payload; \<open>claimedSender\<close> stands for a
  sender field a client may add, which the destructuring pattern does not bind.
\<close>

record signal_payload =
  blob :: string
  targetId :: string
  claimedSender :: "string option"

definition offer :: "state \<Rightarrow> string \<Rightarrow> signal_payload \<Rightarrow> state \<times> emission list" where
  "offer st socket_id p = (st, [(ToRoomExcept (targetId p) socket_id, Offer (blob p) socket_id)])"

definition answer :: "state \<Rightarrow> string \<Rightarrow> signal_payload \<Rightarrow> state \<times> emission list" where
  "answer st socket_id p = (st, [(ToRoomExcept (targetId p) socket_id, Answer (blob p) socket_id)])"

definition ice_candidate :: "state \<Rightarrow> string \<Rightarrow> signal_payload \<Rightarrow> state \<times> emission list" where
  "ice_candidate st socket_id p =
     (st, [(ToRoomExcept (targetId p) socket_id, IceCandidate (blob p) socket_id)])"

section \<open>State toggles, reactions and chat\<close>

definition user_muted :: "state \<Rightarrow> string \<Rightarrow> string \<Rightarrow> bool \<Rightarrow> state \<times> emission list" where
  "user_muted st socket_id participantId v =
     (case map_of (connectedUsers st) participantId of
        Some u \<Rightarrow>
          (st\<lparr>connectedUsers := AList.update participantId (u\<lparr>isMuted := v\<rparr>) (connectedUsers st)\<rparr>,
           [(ToRoomExcept (roomId u) socket_id, UserMuted participantId v)])
      | None \<Rightarrow> (st, []))"

definition user_video_toggled :: "state \<Rightarrow> string \<Rightarrow> string \<Rightarrow> bool \<Rightarrow> state \<times> emission list" where
  "user_video_toggled st socket_id participantId v =
     (case map_of (connectedUsers st) participantId of
        Some u \<Rightarrow>
          (st\<lparr>connectedUsers := AList.update participantId (u\<lparr>isVideoOff := v\<rparr>) (connectedUsers st)\<rparr>,
           [(ToRoomExcept (roomId u) socket_id, UserVideoToggled participantId v)])
      | None \<Rightarrow> (st, []))"

definition raise_hand_toggled :: "state \<Rightarrow> string \<Rightarrow> string \<Rightarrow> bool \<Rightarrow> state \<times> emission list" where
  "raise_hand_toggled st socket_id participantId v =
     (case map_of (connectedUsers st) participantId of
        Some u \<Rightarrow>
          (st\<lparr>connectedUsers := AList.update participantId (u\<lparr>isRaiseHand := v\<rparr>) (connectedUsers st)\<rparr>,
           [(ToRoomExcept (roomId u) socket_id, RaiseHandToggled participantId v)])
      | None \<Rightarrow> (st, []))"

text \<open>The payload of \<open>reaction\<close> and \<open>chat-message\<close>: a text, \<open>senderId\<close> and \<open>timestamp\<close>.\<close>

record message_payload =
  content :: string
  senderId :: string
  timestamp :: string

definition reaction :: "state \<Rightarrow> string \<Rightarrow> message_payload \<Rightarrow> state \<times> emission list" where
  "reaction st socket_id p =
     (case map_of (connectedUsers st) (senderId p) of
        Some u \<Rightarrow>
          (st, [(ToRoom (roomId u), ReactionReceived (content p) (senderId p) (name u) (timestamp p))])
      | None \<Rightarrow> (st, []))"

definition chat_message :: "state \<Rightarrow> string \<Rightarrow> message_payload \<Rightarrow> state \<times> emission list" where
  "chat_message st socket_id p =
     (case map_of (connectedUsers st) (senderId p) of
        Some u \<Rightarrow>
          (st, [(ToRoom (roomId u), ChatMessage (content p) (senderId p) (name u) (timestamp p))])
      | None \<Rightarrow> (st, []))"

section \<open>Host transfer\<close>

text \<open>
  \<open>currentHost\<close> and \<open>newHost\<close> are the objects stored in \<open>connectedUsers\<close>; when
  \<open>newHostId\<close> is the caller's own id they are one object, which the second assignment
  leaves with \<open>isHost = true\<close>.
\<close>

definition host_transfer :: "state \<Rightarrow> string \<Rightarrow> string \<Rightarrow> state \<times> emission list" where
  "host_transfer st socket_id newHostId =
     (case map_of (connectedUsers st) socket_id of
        None \<Rightarrow> (st, [])
      | Some currentHost \<Rightarrow>
          (case map_of (connectedUsers st) newHostId of
             None \<Rightarrow> (st, [])
           | Some newHost \<Rightarrow>
               if isHost currentHost \<and> roomId currentHost = roomId newHost then
                 (let currentHost' = currentHost\<lparr>isHost := False\<rparr>;
                      newHost' = (if newHostId = socket_id then currentHost' else newHost)\<lparr>isHost := True\<rparr>;
                      hosts' = AList.update (roomId currentHost) newHostId (roomHosts st);
                      users' = AList.update newHostId newHost'
                                 (AList.update socket_id
                                    (if newHostId = socket_id then newHost' else currentHost')
                                    (connectedUsers st));
                      members = (case map_of (rooms st) (roomId currentHost) of
                                   Some rs \<Rightarrow> rs | None \<Rightarrow> [])
                  in (st\<lparr>connectedUsers := users', roomHosts := hosts'\<rparr>,
                      [(ToRoom (roomId currentHost),
                        HostChanged newHostId (name newHost) socket_id
                          (map (\<lambda>i. (i, i = newHostId)) members))]))
               else (st, [])))"

section \<open>Disconnect\<close>

text \<open>
  The listener of \<open>disconnect\<close>. Socket.IO has taken the socket out of
  \<open>io.sockets.sockets\<close> and out of its rooms before the listener runs
  (\<open>socket_closed\<close>); the listener itself touches the registries only.
\<close>

definition socket_closed :: "state \<Rightarrow> string \<Rightarrow> state" where
  "socket_closed st socket_id = st\<lparr>sockets := AList.delete socket_id (sockets st)\<rparr>"

definition promote_next_host ::
  "state \<Rightarrow> string \<Rightarrow> string \<Rightarrow> string list \<Rightarrow> state \<times> emission list" where
  "promote_next_host st socket_id room roomSockets =
     (case roomSockets of
        [] \<Rightarrow> (st, [])
      | nextHostId # _ \<Rightarrow>
          (case map_of (connectedUsers st) nextHostId of
             None \<Rightarrow> (st, [])
           | Some nextHost \<Rightarrow>
               (st\<lparr>roomHosts := AList.update room nextHostId (roomHosts st),
                   connectedUsers :=
                     AList.update nextHostId (nextHost\<lparr>isHost := True\<rparr>) (connectedUsers st)\<rparr>,
                [(ToRoom room,
                  HostChanged nextHostId (name nextHost) socket_id
                    (map (\<lambda>i. (i, i = nextHostId)) roomSockets))])))"

definition leave_room :: "state \<Rightarrow> string \<Rightarrow> user \<Rightarrow> state \<times> emission list" where
  "leave_room st socket_id u =
     (case map_of (rooms st) (roomId u) of
        None \<Rightarrow> (st, [])
      | Some rs \<Rightarrow>
          (let roomSockets = set_delete socket_id rs;
               st1 = st\<lparr>rooms := AList.update (roomId u) roomSockets (rooms st)\<rparr>;
               (st2, out) = (if isHost u \<and> length roomSockets > 0
                             then promote_next_host st1 socket_id (roomId u) roomSockets
                             else (st1, []))
           in if length roomSockets = 0
              then (st2\<lparr>rooms := AList.delete (roomId u) (rooms st2),
                        roomHosts := AList.delete (roomId u) (roomHosts st2),
                        roomCreators := AList.delete (roomId u) (roomCreators st2)\<rparr>, out)
              else (st2, out)))"

definition remove_session :: "state \<Rightarrow> string \<Rightarrow> string \<Rightarrow> state" where
  "remove_session st socket_id userName =
     (case map_of (userSessions st) userName of
        None \<Rightarrow> st
      | Some userSessionSet \<Rightarrow>
          (let ss = set_delete socket_id userSessionSet
           in if length ss = 0
              then st\<lparr>userSessions := AList.delete userName (userSessions st)\<rparr>
              else st\<lparr>userSessions := AList.update userName ss (userSessions st)\<rparr>))"

definition disconnect_handler ::
  "state \<Rightarrow> string \<Rightarrow> string \<Rightarrow> int \<Rightarrow> state \<times> emission list" where
  "disconnect_handler st socket_id reason now =
     (case map_of (connectedUsers st) socket_id of
        None \<Rightarrow>
          (st\<lparr>connectionHealth := AList.delete socket_id (connectionHealth st)\<rparr>, [])
      | Some u \<Rightarrow>
          (let st1 = remove_session st socket_id (name u);
               (st2, out) = leave_room st1 socket_id u;
               st3 = st2\<lparr>connectedUsers := AList.delete socket_id (connectedUsers st2)\<rparr>;
               participantCount = (case map_of (rooms st3) (roomId u) of
                                     Some rs \<Rightarrow> length rs | None \<Rightarrow> 0)
           in (st3\<lparr>connectionHealth := AList.delete socket_id (connectionHealth st3)\<rparr>,
               out @ [(ToRoomExcept (roomId u) socket_id, UserLeft socket_id (name u) now reason),
                      (ToRoom (roomId u), ParticipantCount participantCount)])))"

definition disconnect :: "state \<Rightarrow> string \<Rightarrow> string \<Rightarrow> int \<Rightarrow> state \<times> emission list" where
  "disconnect st socket_id reason now = disconnect_handler (socket_closed st socket_id) socket_id reason now"

section \<open>The periodic sweep\<close>

definition staleThreshold :: int where
  "staleThreshold = 5 * 60 * 1000"

definition clean_stale :: "int \<Rightarrow> string \<times> connection_health \<Rightarrow> state \<Rightarrow> state" where
  "clean_stale now e st =
     (if now - lastPing (snd e) > staleThreshold
      then st\<lparr>connectionHealth := AList.delete (fst e) (connectionHealth st),
              connectedUsers := AList.delete (fst e) (connectedUsers st)\<rparr>
      else st)"

definition clean_empty_room :: "string \<times> string list \<Rightarrow> state \<Rightarrow> state" where
  "clean_empty_room e st =
     (if length (snd e) = 0 then st\<lparr>rooms := AList.delete (fst e) (rooms st)\<rparr> else st)"

definition performCleanup :: "state \<Rightarrow> int \<Rightarrow> state \<times> emission list" where
  "performCleanup st now =
     (let st1 = fold (clean_stale now) (connectionHealth st) st;
          st2 = fold clean_empty_room (rooms st1) st1
      in (st2, []))"

section \<open>Joining a room\<close>

text \<open>
  The payload of \<open>join-room\<close>. A field is \<open>None\<close> when it is absent or not a string; the
  handler rejects both alike (\<open>!roomId\<close>, \<open>typeof roomId !== 'string'\<close>), and an empty string
  is falsy.
\<close>

record join_payload =
  jp_roomId :: "string option"
  jp_userName :: "string option"
  jp_userId :: "string option"

definition truthy :: "string option \<Rightarrow> bool" where
  "truthy v = (case v of Some s \<Rightarrow> s \<noteq> [] | None \<Rightarrow> False)"

definition get_or_create_room :: "state \<Rightarrow> string \<Rightarrow> string option \<Rightarrow> state" where
  "get_or_create_room st room userId =
     (case map_of (rooms st) room of
        Some rs \<Rightarrow> st
      | None \<Rightarrow>
          (let st1 = st\<lparr>rooms := AList.update room [] (rooms st)\<rparr>
           in case userId of
                Some c \<Rightarrow> if c \<noteq> [] then st1\<lparr>roomCreators := AList.update room c (roomCreators st1)\<rparr>
                          else st1
              | None \<Rightarrow> st1))"

text \<open>
  One round of the loop over the old sessions of the joining name. \<open>oldSocket.disconnect(true)\<close>
  closes the old socket; its \<open>disconnect\<close> listeners then find no participant record (it was
  deleted just before, or never existed) and only delete its health record.
\<close>

definition force_disconnect :: "state \<Rightarrow> string \<Rightarrow> state" where
  "force_disconnect st oldId =
     (case map_of (sockets st) oldId of
        None \<Rightarrow> st
      | Some oldSocket \<Rightarrow>
          if connected oldSocket
          then st\<lparr>sockets := AList.delete oldId (sockets st),
                  connectionHealth := AList.delete oldId (connectionHealth st)\<rparr>
          else st)"

definition preempt_old_session ::
  "string \<Rightarrow> string \<Rightarrow> int \<Rightarrow> string \<Rightarrow> state \<times> emission list \<Rightarrow> state \<times> emission list" where
  "preempt_old_session socket_id userName now oldId acc =
     (if oldId \<noteq> socket_id then
        (let st = fst acc; out = snd acc;
             (st1, out1) =
               (case map_of (connectedUsers st) oldId of
                  None \<Rightarrow> (st, out)
                | Some oldUser \<Rightarrow>
                    (let st_a = (case map_of (rooms st) (roomId oldUser) of
                                   None \<Rightarrow> st
                                 | Some oldRoomSockets \<Rightarrow>
                                     st\<lparr>rooms := AList.update (roomId oldUser)
                                                    (set_delete oldId oldRoomSockets) (rooms st)\<rparr>)
                     in (st_a\<lparr>connectedUsers := AList.delete oldId (connectedUsers st_a),
                             connectionHealth := AList.delete oldId (connectionHealth st_a)\<rparr>,
                         out @ [(ToRoom (roomId oldUser),
                                 UserLeft oldId userName now ''duplicate-session'')])))
         in (force_disconnect st1 oldId, out1))
      else acc)"

definition preempt_sessions ::
  "state \<Rightarrow> string \<Rightarrow> string \<Rightarrow> int \<Rightarrow> state \<times> emission list" where
  "preempt_sessions st socket_id userName now =
     (case map_of (userSessions st) userName of
        None \<Rightarrow> (st, [])
      | Some existingSessions \<Rightarrow>
          if length existingSessions > 0 then
            (let (st1, out) = fold (preempt_old_session socket_id userName now) existingSessions (st, [])
             in (st1\<lparr>userSessions := AList.update userName [] (userSessions st1)\<rparr>, out))
          else (st, []))"

definition add_session :: "state \<Rightarrow> string \<Rightarrow> string \<Rightarrow> state" where
  "add_session st socket_id userName =
     st\<lparr>userSessions :=
          AList.update userName
            (set_add socket_id (case map_of (userSessions st) userName of
                                  Some ss \<Rightarrow> ss | None \<Rightarrow> []))
            (userSessions st)\<rparr>"

definition socket_join :: "state \<Rightarrow> string \<Rightarrow> string \<Rightarrow> state" where
  "socket_join st socket_id room =
     (case map_of (sockets st) socket_id of
        None \<Rightarrow> st
      | Some sk \<Rightarrow> st\<lparr>sockets := AList.update socket_id (sk\<lparr>joined := set_add room (joined sk)\<rparr>)
                                     (sockets st)\<rparr>)"

text \<open>The scan of the target room for disconnected sockets and old sessions of the name.\<close>

definition is_stale :: "state \<Rightarrow> string \<Rightarrow> string \<Rightarrow> string \<Rightarrow> bool" where
  "is_stale st socket_id userName socketId =
     ((case map_of (sockets st) socketId of
         None \<Rightarrow> True
       | Some existingSocket \<Rightarrow> \<not> connected existingSocket)
      \<or> (case map_of (connectedUsers st) socketId of
            None \<Rightarrow> False
          | Some existingUser \<Rightarrow> name existingUser = userName \<and> socketId \<noteq> socket_id))"

definition remove_stale_socket ::
  "string \<Rightarrow> string \<Rightarrow> int \<Rightarrow> string \<Rightarrow> state \<times> emission list \<Rightarrow> state \<times> emission list" where
  "remove_stale_socket socket_id room now socketId acc =
     (let st = fst acc; out = snd acc;
          st1 = (case map_of (rooms st) room of
                   None \<Rightarrow> st
                 | Some roomSockets \<Rightarrow>
                     st\<lparr>rooms := AList.update room (set_delete socketId roomSockets) (rooms st)\<rparr>);
          st2 = st1\<lparr>connectedUsers := AList.delete socketId (connectedUsers st1),
                    connectionHealth := AList.delete socketId (connectionHealth st1)\<rparr>;
          userName = (case map_of (connectedUsers st2) socketId of
                        None \<Rightarrow> ''Unknown''
                      | Some u \<Rightarrow> if name u = [] then ''Unknown'' else name u)
      in (st2, out @ [(ToRoomExcept room socket_id,
                       UserLeft socketId userName now ''stale-connection'')]))"

definition room_sockets :: "state \<Rightarrow> string \<Rightarrow> string list" where
  "room_sockets st room = (case map_of (rooms st) room of Some rs \<Rightarrow> rs | None \<Rightarrow> [])"

definition remove_stale_sockets ::
  "state \<Rightarrow> string \<Rightarrow> string \<Rightarrow> string \<Rightarrow> int \<Rightarrow> state \<times> emission list" where
  "remove_stale_sockets st socket_id room userName now =
     (let socketsToRemove = filter (is_stale st socket_id userName) (room_sockets st room)
      in fold (remove_stale_socket socket_id room now) socketsToRemove (st, []))"

definition participant_of :: "state \<Rightarrow> string \<Rightarrow> participant_info" where
  "participant_of st i =
     (case map_of (connectedUsers st) i of
        None \<Rightarrow> ParticipantInfo i (''User '' @ i) False False False False
      | Some u \<Rightarrow>
          ParticipantInfo i (if name u = [] then ''User '' @ i else name u)
            (isMuted u) (isVideoOff u) (isHost u) (isRaiseHand u))"

text \<open>The part of the handler after the capacity checks.\<close>

definition admit ::
  "state \<Rightarrow> string \<Rightarrow> int \<Rightarrow> string \<Rightarrow> string \<Rightarrow> string option \<Rightarrow> state \<times> emission list" where
  "admit st socket_id now room userName userId =
     (let (st1, out1) = preempt_sessions st socket_id userName now;
          st2 = socket_join (add_session st1 socket_id userName) socket_id room;
          (st3, out3) = remove_stale_sockets st2 socket_id room userName now;
          isRoomCreator = (length (room_sockets st3 room) = 0);
          isCreator = (truthy userId \<and> map_of (roomCreators st3) room = userId);
          currentHostId = map_of (roomHosts st3) room;
          currentHostExists = (case currentHostId of
                                 None \<Rightarrow> False
                               | Some h \<Rightarrow> h \<noteq> [] \<and> map_of (connectedUsers st3) h \<noteq> None);
          shouldBeHost = (isCreator \<or> isRoomCreator \<or> \<not> currentHostExists);
          newUser = \<lparr>id_user = socket_id, name = userName, roomId = room, joinedAt = now,
                     lastSeen = now, status = Online, isMuted = False, isVideoOff = False,
                     isHost = shouldBeHost, isRaiseHand = False\<rparr>;
          st4 = st3\<lparr>rooms := AList.update room (set_add socket_id (room_sockets st3 room)) (rooms st3),
                    connectedUsers := AList.update socket_id newUser (connectedUsers st3)\<rparr>;
          st5 = (if shouldBeHost then
                   (let st_d =
                      (case currentHostId of
                         None \<Rightarrow> st4
                       | Some h \<Rightarrow>
                           if isCreator \<and> currentHostExists \<and> h \<noteq> socket_id then
                             (case map_of (connectedUsers st4) h of
                                None \<Rightarrow> st4
                              | Some oldHost \<Rightarrow>
                                  st4\<lparr>connectedUsers :=
                                        AList.update h (oldHost\<lparr>isHost := False\<rparr>) (connectedUsers st4)\<rparr>)
                           else st4)
                    in st_d\<lparr>roomHosts := AList.update room socket_id (roomHosts st_d)\<rparr>)
                 else st4);
          roomSockets = room_sockets st5 room;
          currentParticipants = map (participant_of st5) (filter (\<lambda>i. i \<noteq> socket_id) roomSockets)
      in (st5,
          out1 @ out3 @
          [(ToRoomExcept room socket_id,
            UserJoined (ParticipantInfo socket_id userName False False shouldBeHost False))] @
          (if shouldBeHost then [(ToRoom room, HostStatusUpdate socket_id userName)] else []) @
          [(ToSocket socket_id, CurrentParticipants currentParticipants),
           (ToRoom room, ParticipantCount (length roomSockets))]))"

definition join_room :: "state \<Rightarrow> string \<Rightarrow> int \<Rightarrow> join_payload \<Rightarrow> state \<times> emission list" where
  "join_room st socket_id now p =
     (case (jp_roomId p, jp_userName p) of
        (Some room, Some userName) \<Rightarrow>
          if room = [] \<or> userName = [] then
            (st, [(ToSocket socket_id, JoinError ''Invalid room ID or username'')])
          else if CHR ''-'' \<in> set userName \<and> length userName > 10 then
            (st, [(ToSocket socket_id, JoinError ''Invalid username format'')])
          else if length (connectedUsers st) \<ge> MAX_TOTAL_USERS then
            (st, [(ToSocket socket_id, JoinError ''Server at capacity'')])
          else
            (let st1 = get_or_create_room st room (jp_userId p)
             in if length (room_sockets st1 room) \<ge> MAX_ROOM_SIZE then
                  (st1, [(ToSocket socket_id, JoinError ''Room is full'')])
                else admit st1 socket_id now room userName (jp_userId p))
      | _ \<Rightarrow> (st, [(ToSocket socket_id, JoinError ''Invalid room ID or username'')]))"

section \<open>Connecting and renaming\<close>

text \<open>
  A new connection: the transport registers the socket, \<open>monitorConnection\<close> creates its
  health record, and the hub confirms the connection to the client.
\<close>

definition connection :: "state \<Rightarrow> string \<Rightarrow> int \<Rightarrow> state \<times> emission list" where
  "connection st socket_id now =
     (st\<lparr>sockets := AList.update socket_id \<lparr>connected = True, joined = []\<rparr> (sockets st),
         connectionHealth :=
           AList.update socket_id
             \<lparr>connectedAt = now, lastPing = now, pingCount = 0, reconnectCount = 0,
              isHealthy = True, latency = None\<rparr>
             (connectionHealth st)\<rparr>,
      [(ToSocket socket_id, ConnectionConfirmed socket_id now)])"

definition rename_participant ::
  "state \<Rightarrow> string \<Rightarrow> string \<Rightarrow> string \<Rightarrow> state \<times> emission list" where
  "rename_participant st socket_id participantId newName =
     (case map_of (connectedUsers st) socket_id of
        None \<Rightarrow> (st, [])
      | Some requester \<Rightarrow>
          (case map_of (connectedUsers st) participantId of
             None \<Rightarrow> (st, [])
           | Some participant \<Rightarrow>
               if (isHost requester \<or> participantId = socket_id)
                  \<and> roomId requester = roomId participant
               then (st\<lparr>connectedUsers :=
                          AList.update participantId (participant\<lparr>name := newName\<rparr>)
                            (connectedUsers st)\<rparr>,
                     [(ToRoom (roomId participant),
                       ParticipantRenamed participantId (name participant) newName)])
               else (st, [])))"

section \<open>Runs of the hub\<close>

text \<open>The events a run is made of, each with the time at which it is handled.\<close>

datatype action =
    Connect string
  | JoinRoom string join_payload
  | Disconnect string string
  | HostTransfer string string
  | Rename string string string
  | Sweep

fun step :: "state \<Rightarrow> int \<times> action \<Rightarrow> state \<times> emission list" where
  "step st (now, Connect c) = connection st c now"
| "step st (now, JoinRoom c p) = join_room st c now p"
| "step st (now, Disconnect c reason) = disconnect st c reason now"
| "step st (now, HostTransfer c n) = host_transfer st c n"
| "step st (now, Rename c q n) = rename_participant st c q n"
| "step st (now, Sweep) = performCleanup st now"

definition run :: "state \<Rightarrow> (int \<times> action) list \<Rightarrow> state" where
  "run st evs = fold (\<lambda>ev s. fst (step s ev)) evs st"

definition hub_empty :: state where
  "hub_empty = \<lparr>connectedUsers = [], userSessions = [], rooms = [], roomHosts = [],
                 roomCreators = [], connectionHealth = [], sockets = []\<rparr>"

section \<open>Properties of a hub state\<close>

text \<open>The members of a room that have a participant record with \<open>isHost = true\<close>.\<close>

definition is_host_in :: "state \<Rightarrow> string \<Rightarrow> bool" where
  "is_host_in st i = (case map_of (connectedUsers st) i of Some u \<Rightarrow> isHost u | None \<Rightarrow> False)"

definition hosts_of :: "state \<Rightarrow> string \<Rightarrow> string list" where
  "hosts_of st room = filter (is_host_in st) (room_sockets st room)"

text \<open>Every room has no member, or exactly one member that is a host.\<close>

definition one_host_per_room :: "state \<Rightarrow> bool" where
  "one_host_per_room st =
     list_all (\<lambda>e. snd e = [] \<or> length (filter (is_host_in st) (snd e)) = 1) (rooms st)"

text \<open>Every connection id in a room's set has a participant record.\<close>

definition members_resolve :: "state \<Rightarrow> bool" where
  "members_resolve st =
     list_all (\<lambda>e. list_all (\<lambda>i. map_of (connectedUsers st) i \<noteq> None) (snd e)) (rooms st)"

text \<open>No room record has an empty set.\<close>

definition no_empty_room :: "state \<Rightarrow> bool" where
  "no_empty_room st = list_all (\<lambda>e. snd e \<noteq> []) (rooms st)"

text \<open>
  The size of the target room after the preemption of the old sessions of the joining name
  and after the scan for stale sockets, as the handler would find it when it has passed its
  capacity checks.
\<close>

definition post_cleanup_size :: "state \<Rightarrow> string \<Rightarrow> int \<Rightarrow> string \<Rightarrow> string \<Rightarrow> nat" where
  "post_cleanup_size st socket_id now room userName =
     (let (st1, out1) = preempt_sessions st socket_id userName now;
          st2 = socket_join (add_session st1 socket_id userName) socket_id room;
          (st3, out3) = remove_stale_sockets st2 socket_id room userName now
      in length (room_sockets st3 room))"

section \<open>Example hubs\<close>

definition live :: "string list \<Rightarrow> sock" where
  "live rs = \<lparr>connected = True, joined = rs\<rparr>"

definition health_at :: "int \<Rightarrow> connection_health" where
  "health_at t = \<lparr>connectedAt = t, lastPing = t, pingCount = 0, reconnectCount = 0,
                  isHealthy = True, latency = None\<rparr>"

definition member :: "string \<Rightarrow> string \<Rightarrow> string \<Rightarrow> int \<Rightarrow> bool \<Rightarrow> user" where
  "member i n r t h = \<lparr>id_user = i, name = n, roomId = r, joinedAt = t, lastSeen = t,
                       status = Online, isMuted = False, isVideoOff = False, isHost = h,
                       isRaiseHand = False\<rparr>"

definition asks :: "string \<Rightarrow> string \<Rightarrow> join_payload" where
  "asks r n = \<lparr>jp_roomId = Some r, jp_userName = Some n, jp_userId = None\<rparr>"

text \<open>
  Alice (host), Bob and Carol in room R1 on the connections alpha, beta and gamma; delta is
  connected and in no room. beta connected at time 0, the others at 200000.
\<close>

definition trace_three :: "(int \<times> action) list" where
  "trace_three =
     [(0, Connect ''beta''), (200000, Connect ''alpha''), (200000, Connect ''gamma''),
      (200000, Connect ''delta''),
      (200001, JoinRoom ''alpha'' (asks ''R1'' ''Alice'')),
      (200002, JoinRoom ''beta'' (asks ''R1'' ''Bob'')),
      (200003, JoinRoom ''gamma'' (asks ''R1'' ''Carol''))]"

definition hub_three :: state where
  "hub_three =
     \<lparr>connectedUsers =
        [(''alpha'', member ''alpha'' ''Alice'' ''R1'' 200001 True),
         (''beta'', member ''beta'' ''Bob'' ''R1'' 200002 False),
         (''gamma'', member ''gamma'' ''Carol'' ''R1'' 200003 False)],
      userSessions = [(''Alice'', [''alpha'']), (''Bob'', [''beta'']), (''Carol'', [''gamma''])],
      rooms = [(''R1'', [''alpha'', ''beta'', ''gamma''])],
      roomHosts = [(''R1'', ''alpha'')],
      roomCreators = [],
      connectionHealth =
        [(''beta'', health_at 0), (''alpha'', health_at 200000), (''gamma'', health_at 200000),
         (''delta'', health_at 200000)],
      sockets =
        [(''beta'', live [''R1'']), (''alpha'', live [''R1'']), (''gamma'', live [''R1'']),
         (''delta'', live [])]\<rparr>"

definition offer_X_to :: "string \<Rightarrow> signal_payload" where
  "offer_X_to t = \<lparr>blob = ''X'', targetId = t, claimedSender = Some ''gamma''\<rparr>"

definition says :: "string \<Rightarrow> string \<Rightarrow> message_payload" where
  "says i m = \<lparr>content = m, senderId = i, timestamp = ''t1''\<rparr>"

text \<open>
  The hub of \<open>hub_three\<close> after the sweep at time 400000: beta's last ping is older than five
  minutes, the others' are not.
\<close>

definition hub_swept :: state where
  "hub_swept =
     \<lparr>connectedUsers =
        [(''alpha'', member ''alpha'' ''Alice'' ''R1'' 200001 True),
         (''gamma'', member ''gamma'' ''Carol'' ''R1'' 200003 False)],
      userSessions = [(''Alice'', [''alpha'']), (''Bob'', [''beta'']), (''Carol'', [''gamma''])],
      rooms = [(''R1'', [''alpha'', ''beta'', ''gamma''])],
      roomHosts = [(''R1'', ''alpha'')],
      roomCreators = [],
      connectionHealth =
        [(''alpha'', health_at 200000), (''gamma'', health_at 200000),
         (''delta'', health_at 200000)],
      sockets =
        [(''beta'', live [''R1'']), (''alpha'', live [''R1'']), (''gamma'', live [''R1'']),
         (''delta'', live [])]\<rparr>"

text \<open>The hub of \<open>hub_three\<close> after beta has renamed itself to Dave.\<close>

definition hub_renamed :: state where
  "hub_renamed =
     hub_three\<lparr>connectedUsers :=
        [(''alpha'', member ''alpha'' ''Alice'' ''R1'' 200001 True),
         (''beta'', member ''beta'' ''Dave'' ''R1'' 200002 False),
         (''gamma'', member ''gamma'' ''Carol'' ''R1'' 200003 False)]\<rparr>"

text \<open>
  Alice alone in room R1, which she created as the authenticated user u1; delta is connected
  and in no room.
\<close>

definition trace_solo :: "(int \<times> action) list" where
  "trace_solo =
     [(0, Connect ''alpha''),
      (1, JoinRoom ''alpha''
            \<lparr>jp_roomId = Some ''R1'', jp_userName = Some ''Alice'', jp_userId = Some ''u1''\<rparr>),
      (2, Connect ''delta'')]"

definition hub_solo :: state where
  "hub_solo =
     \<lparr>connectedUsers = [(''alpha'', member ''alpha'' ''Alice'' ''R1'' 1 True)],
      userSessions = [(''Alice'', [''alpha''])],
      rooms = [(''R1'', [''alpha''])],
      roomHosts = [(''R1'', ''alpha'')],
      roomCreators = [(''R1'', ''u1'')],
      connectionHealth = [(''alpha'', health_at 0), (''delta'', health_at 2)],
      sockets = [(''alpha'', live [''R1'']), (''delta'', live [])]\<rparr>"

text \<open>
  A full room: Alice's session on the connection old and 49 guests are in R1; new is a
  fresh connection.
\<close>

definition guests :: "string list" where
  "guests = map (\<lambda>k. replicate (Suc k) CHR ''g'') [0..<49]"

definition hub_full :: state where
  "hub_full =
     \<lparr>connectedUsers =
        (''old'', member ''old'' ''Alice'' ''R1'' 0 True) #
        map (\<lambda>g. (g, member g (''guest '' @ g) ''R1'' 1 False)) guests,
      userSessions = (''Alice'', [''old'']) # map (\<lambda>g. (''guest '' @ g, [g])) guests,
      rooms = [(''R1'', ''old'' # guests)],
      roomHosts = [(''R1'', ''old'')],
      roomCreators = [],
      connectionHealth = map (\<lambda>i. (i, health_at 0)) (''old'' # guests @ [''new'']),
      sockets = map (\<lambda>i. (i, live [''R1''])) (''old'' # guests) @ [(''new'', live [])]\<rparr>"

text \<open>
  Two participants of one room with the host flag: alpha and gamma join R1, zeta joins R2,
  gamma joins R2 on the same connection (its record now names R2, its id stays in the set
  of R1), and alpha, the host of R1, disconnects, which promotes gamma as the first
  remaining member of R1.
\<close>

definition trace_two_flags :: "(int \<times> action) list" where
  "trace_two_flags =
     [(0, Connect ''alpha''), (0, Connect ''gamma''), (0, Connect ''zeta''),
      (1, JoinRoom ''alpha'' (asks ''R1'' ''Alice'')),
      (2, JoinRoom ''gamma'' (asks ''R1'' ''Carol'')),
      (3, JoinRoom ''zeta'' (asks ''R2'' ''Zoe'')),
      (4, JoinRoom ''gamma'' (asks ''R2'' ''Carol'')),
      (5, Disconnect ''alpha'' ''transport close'')]"

definition hub_two_flags :: state where
  "hub_two_flags =
     \<lparr>connectedUsers =
        [(''gamma'', member ''gamma'' ''Carol'' ''R2'' 4 True),
         (''zeta'', member ''zeta'' ''Zoe'' ''R2'' 3 True)],
      userSessions = [(''Carol'', [''gamma'']), (''Zoe'', [''zeta''])],
      rooms = [(''R1'', [''gamma'']), (''R2'', [''zeta'', ''gamma''])],
      roomHosts = [(''R1'', ''gamma''), (''R2'', ''zeta'')],
      roomCreators = [],
      connectionHealth = [(''gamma'', health_at 0), (''zeta'', health_at 0)],
      sockets = [(''gamma'', live [''R1'', ''R2'']), (''zeta'', live [''R2''])]\<rparr>"

section \<open>Facts about maps and transport rooms\<close>

lemma hub_three_reached: "run hub_empty trace_three = hub_three"
  by code_simp

lemma update_commute:
  "k \<noteq> k' \<Longrightarrow> k \<in> fst ` set al \<Longrightarrow> k' \<in> fst ` set al \<Longrightarrow>
   AList.update k v (AList.update k' v' al) = AList.update k' v' (AList.update k v al)"
  by (induction al) auto

lemma deliveries_single:
  "deliveries st [(t, e)] = map (\<lambda>m. (m, e)) (recipients st t)"
  by (simp add: deliveries_def)

lemma filter_key_distinct:
  "distinct (map fst xs) \<Longrightarrow> t \<in> fst ` set xs \<Longrightarrow> map fst (filter (\<lambda>s. fst s = t) xs) = [t]"
proof (induction xs)
  case Nil
  then show ?case by simp
next
  case (Cons x xs)
  show ?case
  proof (cases "fst x = t")
    case True
    with Cons.prems have "t \<notin> fst ` set xs" by auto
    then have "filter (\<lambda>s. fst s = t) xs = []" by (auto simp: filter_empty_conv)
    with True show ?thesis by simp
  next
    case False
    with Cons show ?thesis by auto
  qed
qed

lemma room_members_private:
  assumes "distinct (map fst (sockets st))" and "t \<in> fst ` set (sockets st)"
    and "\<forall>s \<in> set (sockets st). t \<notin> set (joined (snd s))"
  shows "room_members st t = [t]"
proof -
  have "filter (in_room t) (sockets st) = filter (\<lambda>s. fst s = t) (sockets st)"
    using assms(3) by (intro filter_cong) (auto simp: in_room_def)
  then show ?thesis
    using filter_key_distinct [OF assms(1,2)] by (simp add: room_members_def)
qed

section \<open>Peer signaling\<close>

text \<open>
  C5, as stated, fails: an \<open>offer\<close> whose \<open>targetId\<close> is the name of a room and of no
  connection is delivered to every other member of that room. Here alpha addresses R1, and
  beta and gamma both receive the offer.
\<close>

theorem offer_to_room_name_reaches_the_room:
  "map_of (sockets hub_three) ''R1'' = None
   \<and> deliveries hub_three (snd (offer hub_three ''alpha'' (offer_X_to ''R1''))) =
       [(''beta'', Offer ''X'' ''alpha''), (''gamma'', Offer ''X'' ''alpha'')]"
  by (simp add: offer_def offer_X_to_def hub_three_def live_def room_members_def in_room_def
      deliveries_def)

text \<open>
  C5, amended: for every \<open>offer\<close>, \<open>answer\<close> or \<open>ice-candidate\<close> event the hub changes no
  registry and issues exactly one emission of the same event, carrying the payload and the
  sending connection's id as \<open>senderId\<close> (a sender field supplied by the client changes
  nothing), addressed to the transport room named \<open>targetId\<close> without the sender. It is
  delivered to the members of that transport room other than the sender, and to nobody
  else, never to the sender. When \<open>targetId\<close> is the id of a connection other than the
  sender and no connection has joined a room of that name, that connection alone receives
  it; when that transport room has no member besides the sender, nothing is delivered.
\<close>

theorem peer_signaling_relay:
  "offer st c p = (st, [(ToRoomExcept (targetId p) c, Offer (blob p) c)])
   \<and> answer st c p = (st, [(ToRoomExcept (targetId p) c, Answer (blob p) c)])
   \<and> ice_candidate st c p = (st, [(ToRoomExcept (targetId p) c, IceCandidate (blob p) c)])
   \<and> offer st c (p\<lparr>claimedSender := x\<rparr>) = offer st c p
   \<and> answer st c (p\<lparr>claimedSender := x\<rparr>) = answer st c p
   \<and> ice_candidate st c (p\<lparr>claimedSender := x\<rparr>) = ice_candidate st c p
   \<and> deliveries st (snd (offer st c p)) =
       map (\<lambda>m. (m, Offer (blob p) c)) (filter (\<lambda>m. m \<noteq> c) (room_members st (targetId p)))
   \<and> deliveries st (snd (answer st c p)) =
       map (\<lambda>m. (m, Answer (blob p) c)) (filter (\<lambda>m. m \<noteq> c) (room_members st (targetId p)))
   \<and> deliveries st (snd (ice_candidate st c p)) =
       map (\<lambda>m. (m, IceCandidate (blob p) c)) (filter (\<lambda>m. m \<noteq> c) (room_members st (targetId p)))
   \<and> (distinct (map fst (sockets st)) \<and> targetId p \<noteq> c \<and> targetId p \<in> fst ` set (sockets st)
        \<and> (\<forall>s \<in> set (sockets st). targetId p \<notin> set (joined (snd s)))
       \<longrightarrow> filter (\<lambda>m. m \<noteq> c) (room_members st (targetId p)) = [targetId p])
   \<and> ((\<forall>m \<in> set (room_members st (targetId p)). m = c)
       \<longrightarrow> filter (\<lambda>m. m \<noteq> c) (room_members st (targetId p)) = [])"
  by (auto simp: offer_def answer_def ice_candidate_def deliveries_single room_members_private
      filter_empty_conv)

theorem peer_signaling_relay_witness:
  "distinct (map fst (sockets hub_three))
   \<and> map_of (sockets hub_three) ''beta'' = Some (live [''R1''])
   \<and> list_all (\<lambda>s. ''beta'' \<notin> set (joined (snd s))) (sockets hub_three)
   \<and> deliveries hub_three (snd (offer hub_three ''alpha'' (offer_X_to ''beta''))) =
       [(''beta'', Offer ''X'' ''alpha'')]
   \<and> room_members hub_three ''omega'' = []
   \<and> deliveries hub_three (snd (offer hub_three ''alpha'' (offer_X_to ''omega''))) = []"
  using peer_signaling_relay [of hub_three "''alpha''" "offer_X_to ''beta''"]
    peer_signaling_relay [of hub_three "''alpha''" "offer_X_to ''omega''"]
  by (simp add: offer_def deliveries_def offer_X_to_def hub_three_def live_def room_members_def
      in_room_def)

section \<open>State toggles\<close>

text \<open>
  C4, as stated, fails: no handler of a state toggle looks at the sender. delta has no
  participant record, so it is neither beta nor a host of beta's room, yet its \<open>user-muted\<close>
  event sets beta's flag and is broadcast to beta's room.
\<close>

theorem foreign_connection_mutes_participant:
  "map_of (connectedUsers hub_three) ''delta'' = None
   \<and> map_option isMuted (map_of (connectedUsers hub_three) ''beta'') = Some False
   \<and> map_option isMuted
        (map_of (connectedUsers (fst (user_muted hub_three ''delta'' ''beta'' True))) ''beta'')
       = Some True
   \<and> deliveries hub_three (snd (user_muted hub_three ''delta'' ''beta'' True)) =
        [(''beta'', UserMuted ''beta'' True), (''alpha'', UserMuted ''beta'' True),
         (''gamma'', UserMuted ''beta'' True)]"
  by (simp add: user_muted_def hub_three_def member_def live_def deliveries_def room_members_def
      in_room_def)

text \<open>
  C4, amended: for every \<open>user-muted\<close>, \<open>user-video-toggled\<close> or \<open>raise-hand-toggled\<close> event
  naming a participant \<open>q\<close> that has a participant record, whichever connection sends it, the
  hub sets the corresponding flag of \<open>q\<close>, changes nothing else, and broadcasts the same event
  to the room of \<open>q\<close> without the sender; when \<open>q\<close> has no participant record the event causes
  no state change and no emission.
\<close>

theorem toggles_apply_for_any_sender:
  "(map_of (connectedUsers st) q = Some u \<longrightarrow>
      user_muted st c q v =
        (st\<lparr>connectedUsers := AList.update q (u\<lparr>isMuted := v\<rparr>) (connectedUsers st)\<rparr>,
         [(ToRoomExcept (roomId u) c, UserMuted q v)])
      \<and> user_video_toggled st c q v =
        (st\<lparr>connectedUsers := AList.update q (u\<lparr>isVideoOff := v\<rparr>) (connectedUsers st)\<rparr>,
         [(ToRoomExcept (roomId u) c, UserVideoToggled q v)])
      \<and> raise_hand_toggled st c q v =
        (st\<lparr>connectedUsers := AList.update q (u\<lparr>isRaiseHand := v\<rparr>) (connectedUsers st)\<rparr>,
         [(ToRoomExcept (roomId u) c, RaiseHandToggled q v)])
      \<and> map_of (connectedUsers (fst (user_muted st c q v))) q = Some (u\<lparr>isMuted := v\<rparr>)
      \<and> map_of (connectedUsers (fst (user_video_toggled st c q v))) q = Some (u\<lparr>isVideoOff := v\<rparr>)
      \<and> map_of (connectedUsers (fst (raise_hand_toggled st c q v))) q = Some (u\<lparr>isRaiseHand := v\<rparr>)
      \<and> deliveries st (snd (user_muted st c q v)) =
          map (\<lambda>m. (m, UserMuted q v)) (filter (\<lambda>m. m \<noteq> c) (room_members st (roomId u)))
      \<and> deliveries st (snd (user_video_toggled st c q v)) =
          map (\<lambda>m. (m, UserVideoToggled q v)) (filter (\<lambda>m. m \<noteq> c) (room_members st (roomId u)))
      \<and> deliveries st (snd (raise_hand_toggled st c q v)) =
          map (\<lambda>m. (m, RaiseHandToggled q v)) (filter (\<lambda>m. m \<noteq> c) (room_members st (roomId u))))
   \<and> (map_of (connectedUsers st) q = None \<longrightarrow>
      user_muted st c q v = (st, []) \<and> user_video_toggled st c q v = (st, [])
      \<and> raise_hand_toggled st c q v = (st, []))"
  by (simp add: user_muted_def user_video_toggled_def raise_hand_toggled_def deliveries_single
      AList.update_conv')

theorem toggles_apply_for_any_sender_witness:
  "map_of (connectedUsers hub_three) ''beta'' = Some (member ''beta'' ''Bob'' ''R1'' 200002 False)
   \<and> map_of (connectedUsers (fst (raise_hand_toggled hub_three ''gamma'' ''beta'' True))) ''beta''
       = Some ((member ''beta'' ''Bob'' ''R1'' 200002 False)\<lparr>isRaiseHand := True\<rparr>)
   \<and> snd (raise_hand_toggled hub_three ''gamma'' ''beta'' True)
       = [(ToRoomExcept ''R1'' ''gamma'', RaiseHandToggled ''beta'' True)]
   \<and> map_of (connectedUsers hub_three) ''omega'' = None
   \<and> user_muted hub_three ''alpha'' ''omega'' True = (hub_three, [])"
  using toggles_apply_for_any_sender [of hub_three "''beta''"
      "member ''beta'' ''Bob'' ''R1'' 200002 False" "''gamma''" True]
    toggles_apply_for_any_sender [of hub_three "''omega''" _ "''alpha''" True]
  by (simp add: hub_three_def member_def)

section \<open>Reactions and chat\<close>

text \<open>
  C10: the handlers of \<open>chat-message\<close> and \<open>reaction\<close> do not depend on the connection that
  delivers the event: any two connections sending the same payload cause the same emissions
  and no state change. The room and the \<open>userName\<close> of the emission are those of the
  participant record found under the client-supplied \<open>senderId\<close>, so any connection, also one
  in another room or in none, has the message attributed to that participant broadcast to
  all members of the participant's room.
\<close>

theorem chat_and_reaction_trust_senderId:
  "chat_message st c1 p = chat_message st c2 p
   \<and> reaction st c1 p = reaction st c2 p
   \<and> fst (chat_message st c1 p) = st \<and> fst (reaction st c1 p) = st
   \<and> (map_of (connectedUsers st) (senderId p) = Some u \<longrightarrow>
        snd (chat_message st c1 p) =
          [(ToRoom (roomId u), ChatMessage (content p) (senderId p) (name u) (timestamp p))]
        \<and> snd (reaction st c1 p) =
          [(ToRoom (roomId u), ReactionReceived (content p) (senderId p) (name u) (timestamp p))]
        \<and> deliveries st (snd (chat_message st c1 p)) =
          map (\<lambda>m. (m, ChatMessage (content p) (senderId p) (name u) (timestamp p)))
            (room_members st (roomId u))
        \<and> deliveries st (snd (reaction st c1 p)) =
          map (\<lambda>m. (m, ReactionReceived (content p) (senderId p) (name u) (timestamp p)))
            (room_members st (roomId u)))"
  by (simp add: chat_message_def reaction_def deliveries_single split: option.split)

theorem chat_and_reaction_trust_senderId_witness:
  "map_of (connectedUsers hub_three) ''delta'' = None
   \<and> map_of (connectedUsers hub_three) ''alpha'' = Some (member ''alpha'' ''Alice'' ''R1'' 200001 True)
   \<and> deliveries hub_three (snd (chat_message hub_three ''delta'' (says ''alpha'' ''hello''))) =
       [(''beta'', ChatMessage ''hello'' ''alpha'' ''Alice'' ''t1''),
        (''alpha'', ChatMessage ''hello'' ''alpha'' ''Alice'' ''t1''),
        (''gamma'', ChatMessage ''hello'' ''alpha'' ''Alice'' ''t1'')]
   \<and> chat_message hub_three ''delta'' (says ''alpha'' ''hello'')
       = chat_message hub_three ''alpha'' (says ''alpha'' ''hello'')"
  using chat_and_reaction_trust_senderId [of hub_three "''delta''" "says ''alpha'' ''hello''"
      "''alpha''" "member ''alpha'' ''Alice'' ''R1'' 200001 True"]
  by (simp add: chat_message_def deliveries_def says_def hub_three_def member_def live_def
      room_members_def in_room_def)

section \<open>Host transfer and back\<close>

lemma isHost_True_id: "isHost u \<Longrightarrow> u\<lparr>isHost := True\<rparr> = u"
  by (cases u) simp

lemma host_transfer_other:
  assumes "map_of (connectedUsers st) A = Some a" and "isHost a"
    and "map_of (connectedUsers st) B = Some b" and "roomId b = roomId a" and "B \<noteq> A"
  shows "fst (host_transfer st A B) =
           st\<lparr>connectedUsers := AList.update B (b\<lparr>isHost := True\<rparr>)
                                  (AList.update A (a\<lparr>isHost := False\<rparr>) (connectedUsers st)),
              roomHosts := AList.update (roomId a) B (roomHosts st)\<rparr>"
  using assms by (simp add: host_transfer_def Let_def)

lemma host_transfer_self:
  assumes "map_of (connectedUsers st) A = Some a" and "isHost a"
    and "map_of (roomHosts st) (roomId a) = Some A"
  shows "fst (host_transfer st A A) = st"
  using assms by (simp add: host_transfer_def Let_def isHost_True_id AList.update_triv)

lemma hub_two_flags_reached: "run hub_empty trace_two_flags = hub_two_flags"
  by code_simp

text \<open>
  C9, as stated, fails: in \<open>hub_two_flags\<close> zeta is the current host of R2 (host-map entry
  and flag) and gamma is a participant of R2 that carries the host flag as well. After
  \<open>host-transfer\<close> from zeta to gamma and back from gamma to zeta the host-map entry is zeta
  again, but gamma's flag is false where it was true.
\<close>

theorem host_transfer_to_flagged_target_and_back:
  "map_of (roomHosts hub_two_flags) ''R2'' = Some ''zeta''
   \<and> map_option isHost (map_of (connectedUsers hub_two_flags) ''zeta'') = Some True
   \<and> map_option roomId (map_of (connectedUsers hub_two_flags) ''zeta'') = Some ''R2''
   \<and> map_option roomId (map_of (connectedUsers hub_two_flags) ''gamma'') = Some ''R2''
   \<and> room_sockets hub_two_flags ''R2'' = [''zeta'', ''gamma'']
   \<and> map_option isHost (map_of (connectedUsers hub_two_flags) ''gamma'') = Some True
   \<and> map_of (roomHosts (fst (host_transfer hub_two_flags ''zeta'' ''gamma''))) ''R2'' = Some ''gamma''
   \<and> map_of (roomHosts (fst (host_transfer (fst (host_transfer hub_two_flags ''zeta'' ''gamma''))
                                ''gamma'' ''zeta''))) ''R2'' = Some ''zeta''
   \<and> map_option isHost
        (map_of (connectedUsers (fst (host_transfer (fst (host_transfer hub_two_flags ''zeta'' ''gamma''))
                                       ''gamma'' ''zeta''))) ''gamma'') = Some False"
  by code_simp

text \<open>
  C9, amended: let A be the current host of a room (the host-map entry of the room is A and
  A carries the host flag) and B a participant of the same room that, unless it is A itself,
  does not carry the host flag before the first transfer. After \<open>host-transfer\<close> from A to B
  the host-map entry is B and B carries the flag; after the following \<open>host-transfer\<close> from
  B to A the host-map entry and the records of A and B, host flags included, are what they
  were before the first transfer, and so is the whole state of the hub.
\<close>

theorem host_transfer_round_trip:
  assumes "map_of (connectedUsers st) A = Some a" and "isHost a"
    and "map_of (roomHosts st) (roomId a) = Some A"
    and "map_of (connectedUsers st) B = Some b" and "roomId b = roomId a"
    and "B \<noteq> A \<longrightarrow> \<not> isHost b"
  shows "map_of (roomHosts (fst (host_transfer st A B))) (roomId a) = Some B
     \<and> map_option isHost (map_of (connectedUsers (fst (host_transfer st A B))) B) = Some True
     \<and> (B \<noteq> A \<longrightarrow>
          map_option isHost (map_of (connectedUsers (fst (host_transfer st A B))) A) = Some False)
     \<and> map_of (roomHosts (fst (host_transfer (fst (host_transfer st A B)) B A))) (roomId a) = Some A
     \<and> map_of (connectedUsers (fst (host_transfer (fst (host_transfer st A B)) B A))) A = Some a
     \<and> map_of (connectedUsers (fst (host_transfer (fst (host_transfer st A B)) B A))) B = Some b
     \<and> fst (host_transfer (fst (host_transfer st A B)) B A) = st"
proof (cases "B = A")
  case True
  with assms have "b = a" by simp
  have "fst (host_transfer st A A) = st"
    using assms(1-3) by (rule host_transfer_self)
  with True assms \<open>b = a\<close> show ?thesis by simp
next
  case False
  with assms have nb: "\<not> isHost b" by simp
  let ?a0 = "a\<lparr>isHost := False\<rparr>" and ?b1 = "b\<lparr>isHost := True\<rparr>"
  let ?st1 = "fst (host_transfer st A B)"
  have st1: "?st1 = st\<lparr>connectedUsers := AList.update B ?b1 (AList.update A ?a0 (connectedUsers st)),
                        roomHosts := AList.update (roomId a) B (roomHosts st)\<rparr>"
    using assms(1,2,4,5) False by (rule host_transfer_other)
  have uB: "map_of (connectedUsers ?st1) B = Some ?b1"
    and uA: "map_of (connectedUsers ?st1) A = Some ?a0"
    using False by (simp_all add: st1 AList.update_conv')
  have snd_tr: "fst (host_transfer ?st1 B A) =
      ?st1\<lparr>connectedUsers := AList.update A (?a0\<lparr>isHost := True\<rparr>)
                                (AList.update B (?b1\<lparr>isHost := False\<rparr>) (connectedUsers ?st1)),
           roomHosts := AList.update (roomId ?b1) A (roomHosts ?st1)\<rparr>"
    using assms(5) False by (intro host_transfer_other [OF uB _ uA]) auto
  have a: "?a0\<lparr>isHost := True\<rparr> = a" using assms(2) by (cases a) simp
  have b: "?b1\<lparr>isHost := False\<rparr> = b" using nb by (cases b) simp
  have users: "AList.update A a (AList.update B b (AList.update A ?a0 (connectedUsers st)))
                 = connectedUsers st"
  proof -
    have "AList.update A a (AList.update B b (AList.update A ?a0 (connectedUsers st)))
        = AList.update B b (AList.update A a (AList.update A ?a0 (connectedUsers st)))"
      using False assms(1,4)
      by (intro update_commute) (auto simp: AList.dom_update dest: map_of_SomeD intro: rev_image_eqI)
    also have "\<dots> = AList.update B b (connectedUsers st)"
      using assms(1) by (simp add: AList.update_triv)
    also have "\<dots> = connectedUsers st"
      using assms(4) by (simp add: AList.update_triv)
    finally show ?thesis .
  qed
  have hosts: "AList.update (roomId a) A (roomHosts st) = roomHosts st"
    using assms(3) by (simp add: AList.update_triv)
  have restored: "fst (host_transfer ?st1 B A) = st"
    unfolding snd_tr a b by (simp add: st1 users hosts assms(5))
  show ?thesis
    unfolding restored using assms False uB uA by (simp add: st1 AList.update_conv')
qed

theorem host_transfer_round_trip_witness:
  "map_of (connectedUsers hub_three) ''alpha'' = Some (member ''alpha'' ''Alice'' ''R1'' 200001 True)
   \<and> map_of (roomHosts hub_three) ''R1'' = Some ''alpha''
   \<and> map_of (roomHosts (fst (host_transfer hub_three ''alpha'' ''beta''))) ''R1'' = Some ''beta''
   \<and> fst (host_transfer (fst (host_transfer hub_three ''alpha'' ''beta'')) ''beta'' ''alpha'') = hub_three"
  using host_transfer_round_trip [of hub_three "''alpha''" "member ''alpha'' ''Alice'' ''R1'' 200001 True"
      "''beta''" "member ''beta'' ''Bob'' ''R1'' 200002 False"]
  by (simp add: hub_three_def member_def)

text \<open>
  Whatever the flag of B was: the round trip restores the host-map entry and the record of
  A, and leaves B without the host flag.
\<close>

lemma host_transfer_round_trip_any_target:
  assumes "map_of (connectedUsers st) A = Some a" and "isHost a"
    and "map_of (roomHosts st) (roomId a) = Some A"
    and "map_of (connectedUsers st) B = Some b" and "roomId b = roomId a" and "B \<noteq> A"
  shows "map_of (roomHosts (fst (host_transfer (fst (host_transfer st A B)) B A))) (roomId a) = Some A
       \<and> map_of (connectedUsers (fst (host_transfer (fst (host_transfer st A B)) B A))) A = Some a
       \<and> map_of (connectedUsers (fst (host_transfer (fst (host_transfer st A B)) B A))) B
           = Some (b\<lparr>isHost := False\<rparr>)"
proof -
  let ?a0 = "a\<lparr>isHost := False\<rparr>" and ?b1 = "b\<lparr>isHost := True\<rparr>"
  let ?st1 = "fst (host_transfer st A B)"
  have st1: "?st1 = st\<lparr>connectedUsers := AList.update B ?b1 (AList.update A ?a0 (connectedUsers st)),
                        roomHosts := AList.update (roomId a) B (roomHosts st)\<rparr>"
    using assms(1,2,4,5,6) by (rule host_transfer_other)
  have uB: "map_of (connectedUsers ?st1) B = Some ?b1"
    and uA: "map_of (connectedUsers ?st1) A = Some ?a0"
    using assms(6) by (simp_all add: st1 AList.update_conv')
  have snd_tr: "fst (host_transfer ?st1 B A) =
      ?st1\<lparr>connectedUsers := AList.update A (?a0\<lparr>isHost := True\<rparr>)
                                (AList.update B (?b1\<lparr>isHost := False\<rparr>) (connectedUsers ?st1)),
           roomHosts := AList.update (roomId ?b1) A (roomHosts ?st1)\<rparr>"
    using assms(5,6) by (intro host_transfer_other [OF uB _ uA]) auto
  have a: "?a0\<lparr>isHost := True\<rparr> = a" using assms(2) by (cases a) simp
  show ?thesis
    unfolding snd_tr a using assms(5,6) by (simp add: AList.update_conv')
qed

section \<open>The host disconnects\<close>

lemma hub_swept_reached: "performCleanup hub_three 400000 = (hub_swept, [])"
  by code_simp

lemma remove_session_fields [simp]:
  "connectedUsers (remove_session st c k) = connectedUsers st"
  "rooms (remove_session st c k) = rooms st"
  "roomHosts (remove_session st c k) = roomHosts st"
  "roomCreators (remove_session st c k) = roomCreators st"
  "connectionHealth (remove_session st c k) = connectionHealth st"
  "sockets (remove_session st c k) = sockets st"
  by (simp_all add: remove_session_def Let_def split: option.split)

lemma leave_room_host_with_others:
  assumes "isHost u" and "map_of (rooms st) (roomId u) = Some rs" and "set_delete c rs = n # rest"
  shows "leave_room st c u =
           promote_next_host (st\<lparr>rooms := AList.update (roomId u) (n # rest) (rooms st)\<rparr>)
             c (roomId u) (n # rest)"
  using assms by (simp add: leave_room_def Let_def split: prod.split)

lemma promote_next_host_known:
  "map_of (connectedUsers st) n = Some nu \<Longrightarrow>
   promote_next_host st c r (n # rest) =
     (st\<lparr>roomHosts := AList.update r n (roomHosts st),
         connectedUsers := AList.update n (nu\<lparr>isHost := True\<rparr>) (connectedUsers st)\<rparr>,
      [(ToRoom r, HostChanged n (name nu) c (map (\<lambda>i. (i, i = n)) (n # rest)))])"
  by (simp add: promote_next_host_def)

lemma promote_next_host_unknown:
  "map_of (connectedUsers st) n = None \<Longrightarrow> promote_next_host st c r (n # rest) = (st, [])"
  by (simp add: promote_next_host_def)

text \<open>
  C6, as stated, fails: in \<open>hub_swept\<close> the host alpha disconnects and beta and gamma remain
  in the room's set, but beta, the first of them, has no participant record (the sweep has
  deleted it, \<open>hub_swept_reached\<close>). Nobody is promoted, the host-map entry still names alpha,
  and no \<open>host-changed\<close> event is emitted.
\<close>

theorem host_leaves_dangling_member_first:
  "map_option isHost (map_of (connectedUsers hub_swept) ''alpha'') = Some True
   \<and> set_delete ''alpha'' (room_sockets hub_swept ''R1'') = [''beta'', ''gamma'']
   \<and> hosts_of (fst (disconnect hub_swept ''alpha'' ''transport close'' 400001)) ''R1'' = []
   \<and> map_of (roomHosts (fst (disconnect hub_swept ''alpha'' ''transport close'' 400001))) ''R1''
       = Some ''alpha''
   \<and> snd (disconnect hub_swept ''alpha'' ''transport close'' 400001) =
       [(ToRoomExcept ''R1'' ''alpha'', UserLeft ''alpha'' ''Alice'' 400001 ''transport close''),
        (ToRoom ''R1'', ParticipantCount 2)]"
  by code_simp

text \<open>
  C6, amended: when a connection whose participant record has \<open>isHost = true\<close> disconnects,
  the remaining member set of its room is not empty and the first remaining member in the
  set's order has a participant record, that member is promoted to host, the host-map
  entry of the room becomes that member, and a \<open>host-changed\<close> event with \<open>newHostId\<close>,
  \<open>newHostName\<close>, \<open>previousHostId\<close> and the vector of all remaining members with their host
  flags is emitted to the room (before \<open>user-left\<close> and \<open>participant-count\<close>).
\<close>

theorem host_leaves_next_member_promoted:
  assumes "map_of (connectedUsers st) c = Some u" and "isHost u"
    and "map_of (rooms st) (roomId u) = Some rs" and "set_delete c rs = n # rest"
    and "map_of (connectedUsers st) n = Some nu"
  shows "map_of (connectedUsers (fst (disconnect_handler st c reason now))) n
           = Some (nu\<lparr>isHost := True\<rparr>)
       \<and> map_of (roomHosts (fst (disconnect_handler st c reason now))) (roomId u) = Some n
       \<and> map_of (rooms (fst (disconnect_handler st c reason now))) (roomId u) = Some (n # rest)
       \<and> snd (disconnect_handler st c reason now) =
           [(ToRoom (roomId u),
             HostChanged n (name nu) c (map (\<lambda>i. (i, i = n)) (n # rest))),
            (ToRoomExcept (roomId u) c, UserLeft c (name u) now reason),
            (ToRoom (roomId u), ParticipantCount (length (n # rest)))]"
proof -
  have "n \<in> set (removeAll c rs)" using assms(4) by (simp add: set_delete_def)
  then have nc: "n \<noteq> c" by auto
  let ?st1 = "remove_session st c (name u)"
  have "leave_room ?st1 c u =
      promote_next_host (?st1\<lparr>rooms := AList.update (roomId u) (n # rest) (rooms ?st1)\<rparr>)
        c (roomId u) (n # rest)"
    using assms(2-4) by (intro leave_room_host_with_others) simp_all
  also have "\<dots> =
      (?st1\<lparr>rooms := AList.update (roomId u) (n # rest) (rooms ?st1),
            roomHosts := AList.update (roomId u) n (roomHosts ?st1),
            connectedUsers := AList.update n (nu\<lparr>isHost := True\<rparr>) (connectedUsers ?st1)\<rparr>,
       [(ToRoom (roomId u), HostChanged n (name nu) c (map (\<lambda>i. (i, i = n)) (n # rest)))])"
    using assms(5) by (subst promote_next_host_known [where nu = nu]) simp_all
  finally have pr: "leave_room ?st1 c u =
      (?st1\<lparr>rooms := AList.update (roomId u) (n # rest) (rooms ?st1),
            roomHosts := AList.update (roomId u) n (roomHosts ?st1),
            connectedUsers := AList.update n (nu\<lparr>isHost := True\<rparr>) (connectedUsers ?st1)\<rparr>,
       [(ToRoom (roomId u), HostChanged n (name nu) c (map (\<lambda>i. (i, i = n)) (n # rest)))])" .
  show ?thesis
    using assms(1) nc by (simp add: disconnect_handler_def pr AList.update_conv')
qed

theorem host_leaves_next_member_promoted_witness:
  "map_of (connectedUsers hub_three) ''alpha'' = Some (member ''alpha'' ''Alice'' ''R1'' 200001 True)
   \<and> map_of (rooms hub_three) ''R1'' = Some [''alpha'', ''beta'', ''gamma'']
   \<and> set_delete ''alpha'' [''alpha'', ''beta'', ''gamma''] = [''beta'', ''gamma'']
   \<and> map_of (connectedUsers hub_three) ''beta'' = Some (member ''beta'' ''Bob'' ''R1'' 200002 False)
   \<and> map_of (connectedUsers (fst (disconnect hub_three ''alpha'' ''transport close'' 300000))) ''beta''
       = Some (member ''beta'' ''Bob'' ''R1'' 200002 True)
   \<and> map_of (roomHosts (fst (disconnect hub_three ''alpha'' ''transport close'' 300000))) ''R1''
       = Some ''beta''
   \<and> snd (disconnect hub_three ''alpha'' ''transport close'' 300000) =
       [(ToRoom ''R1'', HostChanged ''beta'' ''Bob'' ''alpha'' [(''beta'', True), (''gamma'', False)]),
        (ToRoomExcept ''R1'' ''alpha'', UserLeft ''alpha'' ''Alice'' 300000 ''transport close''),
        (ToRoom ''R1'', ParticipantCount 2)]"
  using host_leaves_next_member_promoted [of "socket_closed hub_three ''alpha''" "''alpha''"
      "member ''alpha'' ''Alice'' ''R1'' 200001 True" "[''alpha'', ''beta'', ''gamma'']"
      "''beta''" "[''gamma'']" "member ''beta'' ''Bob'' ''R1'' 200002 False"
      "''transport close''" 300000]
  by (simp add: disconnect_def socket_closed_def hub_three_def member_def set_delete_def)

text \<open>
  When the first remaining member has no participant record, the handler promotes nobody,
  leaves the host-map as it is and emits no \<open>host-changed\<close> event.
\<close>

lemma host_leaves_unknown_member_first:
  assumes "map_of (connectedUsers st) c = Some u" and "isHost u"
    and "map_of (rooms st) (roomId u) = Some rs" and "set_delete c rs = n # rest"
    and "map_of (connectedUsers st) n = None"
  shows "roomHosts (fst (disconnect_handler st c reason now)) = roomHosts st
       \<and> connectedUsers (fst (disconnect_handler st c reason now))
           = AList.delete c (connectedUsers st)
       \<and> map_of (rooms (fst (disconnect_handler st c reason now))) (roomId u) = Some (n # rest)
       \<and> snd (disconnect_handler st c reason now) =
           [(ToRoomExcept (roomId u) c, UserLeft c (name u) now reason),
            (ToRoom (roomId u), ParticipantCount (length (n # rest)))]"
proof -
  let ?st1 = "remove_session st c (name u)"
  have "leave_room ?st1 c u =
      promote_next_host (?st1\<lparr>rooms := AList.update (roomId u) (n # rest) (rooms ?st1)\<rparr>)
        c (roomId u) (n # rest)"
    using assms(2-4) by (intro leave_room_host_with_others) simp_all
  also have "\<dots> = (?st1\<lparr>rooms := AList.update (roomId u) (n # rest) (rooms ?st1)\<rparr>, [])"
    using assms(5) by (subst promote_next_host_unknown) simp_all
  finally have pr: "leave_room ?st1 c u =
      (?st1\<lparr>rooms := AList.update (roomId u) (n # rest) (rooms ?st1)\<rparr>, [])" .
  show ?thesis
    using assms(1) by (simp add: disconnect_handler_def pr AList.update_conv')
qed

section \<open>The capacity of a room\<close>

lemma get_or_create_room_sockets [simp]:
  "room_sockets (get_or_create_room st room uid) room = room_sockets st room"
  by (simp add: get_or_create_room_def room_sockets_def Let_def AList.update_conv'
      split: option.split)

lemma get_or_create_room_present:
  "room_sockets st room \<noteq> [] \<Longrightarrow> get_or_create_room st room uid = st"
  by (simp add: get_or_create_room_def room_sockets_def split: option.splits)

lemma admit_ends_with_count:
  "fst (last (snd (admit st c now room userName uid))) = ToRoom room"
  by (simp add: admit_def Let_def split: prod.split)

lemma admit_not_rejection: "snd (admit st c now room userName uid) \<noteq> [(ToSocket c, JoinError m)]"
proof
  assume "snd (admit st c now room userName uid) = [(ToSocket c, JoinError m)]"
  then have "fst (last (snd (admit st c now room userName uid))) = ToSocket c" by simp
  then show False by (simp add: admit_ends_with_count)
qed

lemma hub_full_rejected:
  "snd (join_room hub_full ''new'' 5 (asks ''R1'' ''Alice''))
     = [(ToSocket ''new'', JoinError ''Room is full'')]"
  by code_simp

lemma hub_full_cleanup: "post_cleanup_size hub_full ''new'' 5 ''R1'' ''Alice'' = 49"
  by code_simp

lemma hub_full_size: "length (room_sockets hub_full ''R1'') = 50"
  by code_simp

text \<open>
  C2, as stated, fails: the handler compares the size of the room with the limit before it
  preempts old sessions and before it scans for stale sockets. In \<open>hub_full\<close> the room holds
  50 entries, one of them the old session of Alice; when Alice joins on a new connection the
  cleanup would leave 49, yet the join is rejected.
\<close>

theorem full_room_rejects_before_cleanup:
  "post_cleanup_size hub_full ''new'' 5 ''R1'' ''Alice'' = 49
   \<and> 49 < MAX_ROOM_SIZE
   \<and> snd (join_room hub_full ''new'' 5 (asks ''R1'' ''Alice''))
       = [(ToSocket ''new'', JoinError ''Room is full'')]"
  by (simp add: hub_full_rejected hub_full_cleanup MAX_ROOM_SIZE_def)

text \<open>
  C2, amended: \<open>join-room\<close> rejects the joiner with \<open>join-error\<close> "Room is full" exactly when
  room id and name are non-empty strings, the name does not look like a room id, fewer than
  1000 participants are registered, and the size of the target room as the handler finds it,
  before the preemption of old sessions and before the scan for stale sockets, is at least
  50. On this rejection no registry changes (no room membership in particular) and the only
  emission is the \<open>join-error\<close> to the joiner.
\<close>

theorem room_full_rejection:
  "(snd (join_room st c now p) = [(ToSocket c, JoinError ''Room is full'')]) =
     (case jp_roomId p of
        None \<Rightarrow> False
      | Some room \<Rightarrow>
          (case jp_userName p of
             None \<Rightarrow> False
           | Some userName \<Rightarrow>
               room \<noteq> [] \<and> userName \<noteq> []
               \<and> \<not> (CHR ''-'' \<in> set userName \<and> length userName > 10)
               \<and> length (connectedUsers st) < MAX_TOTAL_USERS
               \<and> length (room_sockets st room) \<ge> MAX_ROOM_SIZE))
   \<and> (snd (join_room st c now p) = [(ToSocket c, JoinError ''Room is full'')] \<longrightarrow>
        fst (join_room st c now p) = st
        \<and> set (map fst (deliveries st (snd (join_room st c now p)))) \<subseteq> {c})"
proof -
  have full: "MAX_ROOM_SIZE \<le> length (room_sockets st room) \<Longrightarrow> get_or_create_room st room uid = st"
    for room uid
    by (rule get_or_create_room_present) (auto simp: MAX_ROOM_SIZE_def)
  show ?thesis
    by (auto simp: join_room_def Let_def admit_not_rejection full deliveries_def
        split: option.splits)
qed

theorem room_full_rejection_witness:
  "length (room_sockets hub_full ''R1'') = 50
   \<and> snd (join_room hub_full ''new'' 5 (asks ''R1'' ''Alice''))
       = [(ToSocket ''new'', JoinError ''Room is full'')]
   \<and> fst (join_room hub_full ''new'' 5 (asks ''R1'' ''Alice'')) = hub_full"
  using room_full_rejection [of hub_full "''new''" 5 "asks ''R1'' ''Alice''"]
  by (simp add: hub_full_rejected hub_full_size)

section \<open>The sweep and the room sets\<close>

lemma fold_clean_stale_fields:
  "rooms (fold (clean_stale now) hs st) = rooms st
   \<and> roomHosts (fold (clean_stale now) hs st) = roomHosts st
   \<and> roomCreators (fold (clean_stale now) hs st) = roomCreators st"
  by (induction hs arbitrary: st) (simp_all add: clean_stale_def)

lemma fold_clean_empty_room_fields:
  "roomHosts (fold clean_empty_room es st) = roomHosts st
   \<and> roomCreators (fold clean_empty_room es st) = roomCreators st
   \<and> connectedUsers (fold clean_empty_room es st) = connectedUsers st
   \<and> connectionHealth (fold clean_empty_room es st) = connectionHealth st"
  by (induction es arbitrary: st) (simp_all add: clean_empty_room_def)

lemma fold_clean_empty_room_rooms:
  "rooms (fold clean_empty_room es st) =
     filter (\<lambda>e. fst e \<notin> fst ` {x \<in> set es. snd x = []}) (rooms st)"
proof (induction es arbitrary: st)
  case Nil
  then show ?case by simp
next
  case (Cons e es)
  show ?case
  proof (cases "snd e = []")
    case True
    then have step: "clean_empty_room e st = st\<lparr>rooms := AList.delete (fst e) (rooms st)\<rparr>"
      by (simp add: clean_empty_room_def)
    have "rooms (fold clean_empty_room (e # es) st) =
        filter (\<lambda>x. fst x \<notin> fst ` {x \<in> set es. snd x = []})
          (filter (\<lambda>x. fst x \<noteq> fst e) (rooms st))"
      by (simp add: step Cons.IH AList.delete_eq case_prod_unfold eq_commute)
    also have "\<dots> = filter (\<lambda>x. fst x \<notin> fst ` {x \<in> set (e # es). snd x = []}) (rooms st)"
      using True by (auto intro!: filter_cong)
    finally show ?thesis .
  next
    case False
    then have step: "clean_empty_room e st = st"
      by (simp add: clean_empty_room_def)
    from False have "{x \<in> set (e # es). snd x = []} = {x \<in> set es. snd x = []}" by auto
    then show ?thesis by (simp only: fold_simps comp_apply step Cons.IH)
  qed
qed

lemma sweep_rooms:
  "rooms (fst (performCleanup st now)) =
     filter (\<lambda>e. fst e \<notin> fst ` {x \<in> set (rooms st). snd x = []}) (rooms st)"
  by (simp add: performCleanup_def Let_def fold_clean_empty_room_rooms fold_clean_stale_fields)

lemma sweep_hosts_and_creators:
  "roomHosts (fst (performCleanup st now)) = roomHosts st
   \<and> roomCreators (fst (performCleanup st now)) = roomCreators st
   \<and> snd (performCleanup st now) = []"
  by (simp add: performCleanup_def Let_def fold_clean_empty_room_fields fold_clean_stale_fields)

lemma fold_clean_stale_records:
  "connectedUsers (fold (clean_stale now) hs st) =
     filter (\<lambda>e. fst e \<notin> fst ` {x \<in> set hs. now - lastPing (snd x) > staleThreshold})
       (connectedUsers st)
   \<and> connectionHealth (fold (clean_stale now) hs st) =
     filter (\<lambda>e. fst e \<notin> fst ` {x \<in> set hs. now - lastPing (snd x) > staleThreshold})
       (connectionHealth st)"
proof (induction hs arbitrary: st)
  case Nil
  then show ?case by simp
next
  case (Cons h hs)
  let ?stale = "\<lambda>x. now - lastPing (snd x) > staleThreshold"
  show ?case
  proof (cases "?stale h")
    case True
    then have step: "clean_stale now h st =
        st\<lparr>connectionHealth := AList.delete (fst h) (connectionHealth st),
           connectedUsers := AList.delete (fst h) (connectedUsers st)\<rparr>"
      by (simp add: clean_stale_def)
    have keys: "fst ` {x \<in> set (h # hs). ?stale x} = insert (fst h) (fst ` {x \<in> set hs. ?stale x})"
      using True by auto
    show ?thesis
      unfolding keys
      by (auto simp: step Cons.IH AList.delete_eq case_prod_unfold intro!: filter_cong)
  next
    case False
    then have step: "clean_stale now h st = st"
      by (simp add: clean_stale_def)
    from False have "{x \<in> set (h # hs). ?stale x} = {x \<in> set hs. ?stale x}" by auto
    then show ?thesis by (simp only: fold_simps comp_apply step Cons.IH)
  qed
qed

lemma sweep_removes_stale_records:
  assumes "(k, h) \<in> set (connectionHealth st)" and "now - lastPing h > staleThreshold"
  shows "map_of (connectedUsers (fst (performCleanup st now))) k = None
       \<and> map_of (connectionHealth (fst (performCleanup st now))) k = None"
proof -
  have k: "k \<in> fst ` {x \<in> set (connectionHealth st). now - lastPing (snd x) > staleThreshold}"
    using assms by force
  have "k \<notin> fst ` set (connectedUsers (fst (performCleanup st now)))"
    and "k \<notin> fst ` set (connectionHealth (fst (performCleanup st now)))"
    using k
    by (simp_all add: performCleanup_def Let_def fold_clean_empty_room_fields
        fold_clean_stale_records image_iff)
  then show ?thesis by (simp add: map_of_eq_None_iff)
qed

lemma sweep_keeps_every_member:
  assumes "distinct (map fst (rooms st))" and "map_of (rooms st) r = Some rs" and "rs \<noteq> []"
  shows "map_of (rooms (fst (performCleanup st now))) r = Some rs"
proof -
  have in_rooms: "(r, rs) \<in> set (rooms st)" using assms(2) by (rule map_of_SomeD)
  have "r \<notin> fst ` {x \<in> set (rooms st). snd x = []}"
  proof
    assume "r \<in> fst ` {x \<in> set (rooms st). snd x = []}"
    then obtain x where "x \<in> set (rooms st)" and "snd x = []" and "fst x = r" by auto
    then have "(r, []) \<in> set (rooms st)" by (metis prod.collapse)
    with assms(1) in_rooms have "rs = []" by (meson eq_key_imp_eq_value)
    with assms(3) show False by simp
  qed
  with in_rooms have "(r, rs) \<in> set (rooms (fst (performCleanup st now)))"
    by (simp add: sweep_rooms)
  moreover have "distinct (map fst (rooms (fst (performCleanup st now))))"
    using assms(1) by (simp add: sweep_rooms distinct_map_filter)
  ultimately show ?thesis by simp
qed

text \<open>
  C3: the sweep deletes the participant record and the health record of a connection whose
  last ping is older than five minutes, and emits nothing, but it leaves the connection id
  in the set of its room. In \<open>hub_three\<close> at time 400000 this is beta: after the sweep beta has
  no record and is still a member of R1, so not every member of a room resolves to a
  participant record.
\<close>

theorem sweep_keeps_room_membership:
  "map_option lastPing (map_of (connectionHealth hub_three) ''beta'') = Some 0
   \<and> 400000 - 0 > staleThreshold
   \<and> members_resolve hub_three
   \<and> snd (performCleanup hub_three 400000) = []
   \<and> map_of (connectedUsers (fst (performCleanup hub_three 400000))) ''beta'' = None
   \<and> map_of (connectionHealth (fst (performCleanup hub_three 400000))) ''beta'' = None
   \<and> map_of (rooms (fst (performCleanup hub_three 400000))) ''R1''
       = Some [''alpha'', ''beta'', ''gamma'']
   \<and> \<not> members_resolve (fst (performCleanup hub_three 400000))"
  by code_simp


section \<open>One host per room\<close>

text \<open>
  C1: \<open>hub_three\<close> has one host per room. When delta joins another room under the name of
  the host Alice, alpha's session is preempted and R1 keeps beta and gamma with no host.
  When the host is beta and the sweep removes beta's record, R1 keeps its three entries with
  no host either.
\<close>

theorem preemption_and_sweep_lose_the_host:
  "one_host_per_room hub_three
   \<and> room_sockets (fst (join_room hub_three ''delta'' 300000 (asks ''R2'' ''Alice''))) ''R1''
       = [''beta'', ''gamma'']
   \<and> hosts_of (fst (join_room hub_three ''delta'' 300000 (asks ''R2'' ''Alice''))) ''R1'' = []
   \<and> \<not> one_host_per_room (fst (join_room hub_three ''delta'' 300000 (asks ''R2'' ''Alice'')))
   \<and> one_host_per_room (fst (host_transfer hub_three ''alpha'' ''beta''))
   \<and> hosts_of (fst (performCleanup (fst (host_transfer hub_three ''alpha'' ''beta'')) 400000)) ''R1''
       = []
   \<and> \<not> one_host_per_room (fst (performCleanup (fst (host_transfer hub_three ''alpha'' ''beta'')) 400000))"
  by code_simp

section \<open>Empty rooms\<close>

lemma hub_solo_reached: "run hub_empty trace_solo = hub_solo"
  by code_simp

text \<open>
  C7: in \<open>hub_solo\<close> Alice is alone in R1. When delta joins R2 under her name, her session
  is preempted: the set of R1 becomes empty, but the room record of R1 stays, and so do its
  host-map and creator-map entries. The next sweep deletes the room record and leaves the
  two entries.
\<close>

theorem preemption_leaves_empty_room:
  "no_empty_room hub_solo
   \<and> map_of (rooms (fst (join_room hub_solo ''delta'' 3 (asks ''R2'' ''Alice'')))) ''R1'' = Some []
   \<and> map_of (roomHosts (fst (join_room hub_solo ''delta'' 3 (asks ''R2'' ''Alice'')))) ''R1''
       = Some ''alpha''
   \<and> map_of (roomCreators (fst (join_room hub_solo ''delta'' 3 (asks ''R2'' ''Alice'')))) ''R1''
       = Some ''u1''
   \<and> \<not> no_empty_room (fst (join_room hub_solo ''delta'' 3 (asks ''R2'' ''Alice'')))
   \<and> map_of (rooms (run hub_solo [(3, JoinRoom ''delta'' (asks ''R2'' ''Alice'')), (60000, Sweep)]))
        ''R1'' = None
   \<and> map_of (roomHosts (run hub_solo [(3, JoinRoom ''delta'' (asks ''R2'' ''Alice'')), (60000, Sweep)]))
        ''R1'' = Some ''alpha''
   \<and> map_of (roomCreators (run hub_solo [(3, JoinRoom ''delta'' (asks ''R2'' ''Alice'')), (60000, Sweep)]))
        ''R1'' = Some ''u1''"
  by code_simp

section \<open>The stale scan of join-room\<close>

lemma hub_renamed_reached:
  "fst (rename_participant hub_three ''beta'' ''beta'' ''Dave'') = hub_renamed"
  by code_simp

lemma remove_stale_socket_out:
  "snd (remove_stale_socket c room now i acc) =
     snd acc @ [(ToRoomExcept room c, UserLeft i ''Unknown'' now ''stale-connection'')]"
  by (simp add: remove_stale_socket_def Let_def AList.delete_conv')

lemma fold_remove_stale_out:
  "snd (fold (remove_stale_socket c room now) ids acc) =
     snd acc @ map (\<lambda>i. (ToRoomExcept room c, UserLeft i ''Unknown'' now ''stale-connection'')) ids"
  by (induction ids arbitrary: acc) (simp_all add: remove_stale_socket_out)

lemma stale_scan_names_nobody:
  "snd (remove_stale_sockets st c room userName now) =
     map (\<lambda>i. (ToRoomExcept room c, UserLeft i ''Unknown'' now ''stale-connection''))
       (filter (is_stale st c userName) (room_sockets st room))"
  by (simp add: remove_stale_sockets_def fold_remove_stale_out)

text \<open>
  C8: in \<open>hub_renamed\<close> beta carries the display name Dave. When delta joins R1 as Dave, the
  stale scan removes beta and emits one \<open>user-left\<close> for it with reason "stale-connection",
  but its \<open>userName\<close> is "Unknown", not Dave: the handler deletes the participant record
  before it reads the name from it.
\<close>

theorem stale_user_left_is_unknown:
  "map_option name (map_of (connectedUsers hub_renamed) ''beta'') = Some ''Dave''
   \<and> filter (is_stale hub_renamed ''delta'' ''Dave'') (room_sockets hub_renamed ''R1'') = [''beta'']
   \<and> room_sockets (fst (join_room hub_renamed ''delta'' 300001 (asks ''R1'' ''Dave''))) ''R1''
       = [''alpha'', ''gamma'', ''delta'']
   \<and> snd (join_room hub_renamed ''delta'' 300001 (asks ''R1'' ''Dave'')) =
       [(ToRoomExcept ''R1'' ''delta'', UserLeft ''beta'' ''Unknown'' 300001 ''stale-connection''),
        (ToRoomExcept ''R1'' ''delta'',
         UserJoined (ParticipantInfo ''delta'' ''Dave'' False False False False)),
        (ToSocket ''delta'',
         CurrentParticipants
           [ParticipantInfo ''alpha'' ''Alice'' False False True False,
            ParticipantInfo ''gamma'' ''Carol'' False False False False]),
        (ToRoom ''R1'', ParticipantCount 3)]"
  by code_simp

end
